theory Spec2Isabelle
  imports Main "HOL-Library.Sublist"
begin

section \<open>The favicon instruction script\<close>

text \<open>
  The repository is one Python script, \<^verbatim>\<open>tools/create_medical_favicon.py\<close>: a
  shebang line, two comment lines and a single module-level statement
  \<^verbatim>\<open>print("""...""")\<close>. The script imports nothing, reads nothing and
  defines nothing, so its whole behaviour is that one call of the builtin
  \<^verbatim>\<open>print\<close> on a string literal.
\<close>

subsection \<open>The world the script runs in\<close>

text \<open>
  What an invocation can see or touch: the command line, the environment
  variables, the files that persist between runs (path to content), whether
  the standard output stream accepts writes, and the bytes the stream has
  received so far. The record holds what the statements of the script can
  act on; the report that the interpreter itself prints about an uncaught
  exception is not an effect of a statement of the script and has no field.
\<close>

record world =
  argv :: "string list"
  environ :: "string \<rightharpoonup> string"
  files :: "string \<rightharpoonup> string"
  stdout_open :: bool
  stdout :: string

text \<open>
  A failed write to a stream raises \<^verbatim>\<open>OSError\<close>. A block of Python code either
  runs to its end or leaves with a raised exception.
\<close>

datatype py_error = OSError

datatype outcome = Normal | Raised py_error

subsection \<open>The builtin \<^verbatim>\<open>print\<close>\<close>

text \<open>
  \<^verbatim>\<open>sys.stdout.write(s)\<close>: the bytes are appended to what the stream holds when
  the stream accepts them; otherwise the call raises and the world stays as it
  was.
\<close>

definition stdout_write :: "string \<Rightarrow> world \<Rightarrow> outcome \<times> world" where
  "stdout_write s w =
     (if stdout_open w then (Normal, w\<lparr>stdout := stdout w @ s\<rparr>)
      else (Raised OSError, w))"

text \<open>
  \<^verbatim>\<open>print(s)\<close> with one string argument and the default \<^verbatim>\<open>sep\<close>, \<^verbatim>\<open>end\<close> and
  \<^verbatim>\<open>file\<close>: write \<^verbatim>\<open>s\<close> to \<^verbatim>\<open>sys.stdout\<close>, then write the terminator
  \<^verbatim>\<open>end = "\n"\<close>. An exception of the first write leaves the call at once.
\<close>

definition print_end :: string where
  "print_end = ''\<newline>''"

definition print_py :: "string \<Rightarrow> world \<Rightarrow> outcome \<times> world" where
  "print_py s w =
     (case stdout_write s w of
        (Normal, w') \<Rightarrow> stdout_write print_end w'
      | (Raised e, w') \<Rightarrow> (Raised e, w'))"

subsection \<open>The script\<close>

text \<open>
  The triple-quoted literal of lines 5 to 26, one source line per line below.
  The literal opens with a line break right after the opening quotes, and the
  closing quotes stand at the start of a line, so it ends with a line break
  too. Line 19 of the source ends with a blank after the colon.
\<close>

definition favicon_text :: string where
  "favicon_text =
     ''\<newline>'' @
     ''Medical Favicon Design Specification:\<newline>'' @
     ''=====================================\<newline>'' @
     ''- Size: 32x32 pixels\<newline>'' @
     ''- Background: Medical blue (#2196F3) with rounded corners\<newline>'' @
     ''- Cross: White medical cross in center\<newline>'' @
     ''- Accent: Small semi-transparent white dots in corners\<newline>'' @
     ''- Style: Professional medical branding matching KP MED logo\<newline>'' @
     ''\<newline>'' @
     ''To manually create this favicon:\<newline>'' @
     ''1. Use any image editor (GIMP, Photoshop, Canva, etc.)\<newline>'' @
     ''2. Create 32x32px canvas\<newline>'' @
     ''3. Fill with blue color #2196F3\<newline>'' @
     ''4. Add rounded corners (6px radius)\<newline>'' @
     ''5. Draw white cross: \<newline>'' @
     ''   - Vertical: 3px wide, 14px tall, centered\<newline>'' @
     ''   - Horizontal: 14px wide, 3px tall, centered\<newline>'' @
     ''6. Add 4 small white dots (1px radius, 50% opacity) in corners\<newline>'' @
     ''7. Export as PNG\<newline>'' @
     ''\<newline>'' @
     ''The SVG version has already been created and configured!\<newline>''"

text \<open>The module body: the one statement \<^verbatim>\<open>print("""...""")\<close>.\<close>

definition create_medical_favicon :: "world \<Rightarrow> outcome \<times> world" where
  "create_medical_favicon w = print_py favicon_text w"

text \<open>
  The exit status of the interpreter: 0 when the module body ran to its end,
  1 when an exception left it uncaught.
\<close>

definition exit_status :: "outcome \<Rightarrow> nat" where
  "exit_status oc = (case oc of Normal \<Rightarrow> 0 | Raised e \<Rightarrow> 1)"

text \<open>One invocation: the exit status and the world it leaves behind.\<close>

definition run :: "world \<Rightarrow> nat \<times> world" where
  "run w = (case create_medical_favicon w of (oc, w') \<Rightarrow> (exit_status oc, w'))"


subsection \<open>Sample invocations\<close>



definition configured_world :: world where
  "configured_world =
     \<lparr>argv = [''tools/create_medical_favicon.py'', ''--size'', ''64''],
      environ = [''FAVICON_COLOR'' \<mapsto> ''#FF0000''],
      files = [''favicon.png'' \<mapsto> ''PNG''],
      stdout_open = True, stdout = ''$ ''\<rparr>"

section \<open>What one invocation does\<close>

text \<open>
  The two ways an invocation can go, by whether the stream takes the writes.
\<close>

lemma run_open:
  "stdout_open w \<Longrightarrow>
     run w = (0, w\<lparr>stdout := stdout w @ favicon_text @ print_end\<rparr>)"
  by (simp add: run_def create_medical_favicon_def print_py_def stdout_write_def
      exit_status_def)







lemma configured_world_open: "stdout_open configured_world"
  by (simp add: configured_world_def)

section \<open>The output\<close>










section \<open>Exit status and failure\<close>

text \<open>
  C2: every invocation whose writes to standard output succeed ends with exit
  status 0.
\<close>

theorem exit_status_zero:
  "stdout_open w \<Longrightarrow> fst (run w) = 0"
  by (simp add: run_open)

theorem exit_status_zero_witness:
  "stdout_open configured_world \<and> fst (run configured_world) = 0"
  using exit_status_zero [of configured_world]
  by (simp add: configured_world_def)




section \<open>Determinism and independence of the inputs\<close>





section \<open>Frame\<close>


end
